theory Spec2Isabelle
  imports Main "HOL-Library.Word"
begin

section \<open>Python values and type annotations\<close>

text \<open>
  The package \<^verbatim>\<open>simple_repository\<close> declares types and structural contracts; the
  values those types range over are Python objects. A value carries its runtime class:
  \<^verbatim>\<open>str\<close>, \<^verbatim>\<open>uuid.UUID\<close> (128 bits), \<^verbatim>\<open>int\<close> (unbounded), \<^verbatim>\<open>float\<close> (an IEEE double, kept
  as its 64 bits), \<^verbatim>\<open>bool\<close>, \<^verbatim>\<open>None\<close>, \<^verbatim>\<open>list\<close> and \<^verbatim>\<open>dict\<close> (insertion ordered).
\<close>

datatype pyval =
    VStr string
  | VUUID "128 word"
  | VInt int
  | VFloat "64 word"
  | VBool bool
  | VNone
  | VList "pyval list"
  | VDict "(pyval \<times> pyval) list"

text \<open>The kinds of value the specification speaks of, one per runtime class.\<close>

datatype kind = KText | KUUID | KInteger | KFloat | KBoolean | KNone | KList | KMapping

fun kind_of :: "pyval \<Rightarrow> kind" where
  "kind_of (VStr _) = KText"
| "kind_of (VUUID _) = KUUID"
| "kind_of (VInt _) = KInteger"
| "kind_of (VFloat _) = KFloat"
| "kind_of (VBool _) = KBoolean"
| "kind_of VNone = KNone"
| "kind_of (VList _) = KList"
| "kind_of (VDict _) = KMapping"

text \<open>
  The annotations used in \<^verbatim>\<open>types.py\<close> and \<^verbatim>\<open>protocols.py\<close>:
  \<^verbatim>\<open>str\<close>, \<^verbatim>\<open>UUID\<close>, \<^verbatim>\<open>int\<close>, \<^verbatim>\<open>float\<close>, \<^verbatim>\<open>bool\<close>, \<^verbatim>\<open>Any\<close>, \<^verbatim>\<open>list[t]\<close>, \<^verbatim>\<open>dict[k, t]\<close>
  and \<^verbatim>\<open>Union[t1, ..., tn]\<close>.
\<close>

datatype pytype =
    TStr
  | TUUID
  | TInt
  | TFloat
  | TBool
  | TAny
  | TList pytype
  | TDict pytype pytype
  | TUnion "pytype list"

text \<open>
  \<open>admits t v\<close>: the value \<open>v\<close> is accepted where \<open>t\<close> is declared. Python's class
  \<^verbatim>\<open>bool\<close> is a subclass of \<^verbatim>\<open>int\<close>, so a boolean is accepted as an \<^verbatim>\<open>int\<close>; a type
  checker also accepts an \<^verbatim>\<open>int\<close> where \<^verbatim>\<open>float\<close> is declared (PEP 484).
\<close>

fun admits :: "pytype \<Rightarrow> pyval \<Rightarrow> bool" where
  "admits TStr v = (case v of VStr _ \<Rightarrow> True | _ \<Rightarrow> False)"
| "admits TUUID v = (case v of VUUID _ \<Rightarrow> True | _ \<Rightarrow> False)"
| "admits TInt v = (case v of VInt _ \<Rightarrow> True | VBool _ \<Rightarrow> True | _ \<Rightarrow> False)"
| "admits TFloat v =
     (case v of VFloat _ \<Rightarrow> True | VInt _ \<Rightarrow> True | VBool _ \<Rightarrow> True | _ \<Rightarrow> False)"
| "admits TBool v = (case v of VBool _ \<Rightarrow> True | _ \<Rightarrow> False)"
| "admits TAny v = True"
| "admits (TList t) v =
     (case v of VList xs \<Rightarrow> list_all (\<lambda>x. admits t x) xs | _ \<Rightarrow> False)"
| "admits (TDict k t) v =
     (case v of
        VDict kvs \<Rightarrow> list_all (\<lambda>kv. admits k (fst kv) \<and> admits t (snd kv)) kvs
      | _ \<Rightarrow> False)"
| "admits (TUnion ts) v = list_ex (\<lambda>t. admits t v) ts"

subsection \<open>\<^verbatim>\<open>types.py\<close>\<close>

text \<open>
  \<^verbatim>\<open>
  PrimitiveValue = Union[str, UUID, int, float, bool]
  FilterValue = Union[PrimitiveValue, list[PrimitiveValue]]
  IdValue = Union[str, UUID, int]
  Filters = dict[str, str]
  \<close>
\<close>

definition PrimitiveValue :: pytype where
  "PrimitiveValue = TUnion [TStr, TUUID, TInt, TFloat, TBool]"

definition FilterValue :: pytype where
  "FilterValue = TUnion [PrimitiveValue, TList PrimitiveValue]"

definition IdValue :: pytype where
  "IdValue = TUnion [TStr, TUUID, TInt]"

definition Filters :: pytype where
  "Filters = TDict TStr TStr"

text \<open>
  The Filter Set as the specification words it: field names of text kind mapped to
  filter values. It is compared with \<open>Filters\<close> above.
\<close>

definition spec_filter_set :: pytype where
  "spec_filter_set = TDict TStr FilterValue"

section \<open>Structural contracts (\<^verbatim>\<open>protocols.py\<close>)\<close>

text \<open>
  A \<^verbatim>\<open>Protocol\<close> class lists members: annotated attributes, class methods and instance
  methods. A method is kept as the annotations of its positional parameters (after
  \<^verbatim>\<open>cls\<close>/\<^verbatim>\<open>self\<close>), whether it takes \<^verbatim>\<open>*args\<close> and \<^verbatim>\<open>**kwargs\<close>, and its return
  annotation, which may be \<^verbatim>\<open>Self\<close>.
\<close>

datatype rettype = RSelf | RType pytype

datatype member =
    Attribute pytype
  | ClassMethod "pytype list" bool bool rettype
  | Method "pytype list" bool bool rettype

type_synonym class_decl = "(string \<times> member) list"

text \<open>
  \<^verbatim>\<open>
  class SqlaModel(Protocol):
      __tablename__: str
      id: Any

  class DomainModel(Protocol):
      id: Any
      @classmethod
      def model_validate(cls, obj: Any, *args, **kwagrs) -> Self: ...
      def model_dump(self, *args, **kwagrs) -> dict[str, Any]: ...

  class Schema(Protocol):
      def model_dump(self, *args, **kwagrs) -> dict[str, Any]: ...
  \<close>
\<close>

definition SqlaModel :: class_decl where
  "SqlaModel = [(''__tablename__'', Attribute TStr), (''id'', Attribute TAny)]"

definition DomainModel :: class_decl where
  "DomainModel =
     [(''id'', Attribute TAny),
      (''model_validate'', ClassMethod [TAny] True True RSelf),
      (''model_dump'', Method [] True True (RType (TDict TStr TAny)))]"

definition Schema :: class_decl where
  "Schema = [(''model_dump'', Method [] True True (RType (TDict TStr TAny)))]"

fun is_attribute :: "member \<Rightarrow> bool" where
  "is_attribute (Attribute _) = True"
| "is_attribute _ = False"

text \<open>
  Structural conformance (PEP 544): a class satisfies a protocol when it has every
  member of the protocol, under the same name, with a consistent declaration.
  \<^verbatim>\<open>Any\<close> is consistent with every annotation, on either side.
\<close>

fun consistent :: "pytype \<Rightarrow> pytype \<Rightarrow> bool" where
  "consistent TAny _ = True"
| "consistent _ TAny = True"
| "consistent (TList a) (TList b) = consistent a b"
| "consistent (TDict k a) (TDict l b) = (consistent k l \<and> consistent a b)"
| "consistent a b = (a = b)"

fun ret_consistent :: "rettype \<Rightarrow> rettype \<Rightarrow> bool" where
  "ret_consistent RSelf RSelf = True"
| "ret_consistent (RType a) (RType b) = consistent a b"
| "ret_consistent (RType a) RSelf = (a = TAny)"
| "ret_consistent RSelf (RType b) = (b = TAny)"

text \<open>
  \<open>params_ok ps va kw ps' va' kw'\<close>: a method of a class with the positional
  parameters \<open>ps'\<close> (and \<^verbatim>\<open>*args\<close>, \<^verbatim>\<open>**kwargs\<close> as \<open>va'\<close>, \<open>kw'\<close> say) can stand
  for a protocol method with the positional parameters \<open>ps\<close> (and \<open>va\<close>, \<open>kw\<close>).
  A protocol signature that ends in unannotated \<^verbatim>\<open>*args, **kwargs\<close>, as every method of
  \<^verbatim>\<open>protocols.py\<close> does, is open after its named parameters: the class need not
  declare \<^verbatim>\<open>*args\<close> or \<^verbatim>\<open>**kwargs\<close> itself and may have further parameters; it must
  take the named ones, by parameters of a consistent annotation or by its own
  \<^verbatim>\<open>*args\<close>. A protocol signature without that ending is met parameter by parameter.
\<close>

definition params_ok ::
  "pytype list \<Rightarrow> bool \<Rightarrow> bool \<Rightarrow> pytype list \<Rightarrow> bool \<Rightarrow> bool \<Rightarrow> bool" where
  "params_ok ps va kw ps' va' kw' =
     (if va \<and> kw
      then list_all2 consistent (take (length ps) ps') (take (length ps') ps) \<and>
           (va' \<or> length ps \<le> length ps')
      else list_all2 consistent ps' ps \<and> (va' \<or> \<not> va) \<and> (kw' \<or> \<not> kw))"

text \<open>
  \<open>member_ok have want\<close>: the class's member \<open>have\<close> meets the protocol's member
  \<open>want\<close>: an attribute of a consistent annotation for an attribute, a class method
  for a class method and an instance method for an instance method, with parameters
  that can stand for the protocol's and a consistent return annotation.
\<close>

fun member_ok :: "member \<Rightarrow> member \<Rightarrow> bool" where
  "member_ok (Attribute t') (Attribute t) = consistent t' t"
| "member_ok (ClassMethod ps' va' kw' r') (ClassMethod ps va kw r) =
     (params_ok ps va kw ps' va' kw' \<and> ret_consistent r' r)"
| "member_ok (Method ps' va' kw' r') (Method ps va kw r) =
     (params_ok ps va kw ps' va' kw' \<and> ret_consistent r' r)"
| "member_ok _ _ = False"

definition has_member :: "class_decl \<Rightarrow> string \<times> member \<Rightarrow> bool" where
  "has_member cls nm =
     (case map_of cls (fst nm) of None \<Rightarrow> False | Some m \<Rightarrow> member_ok m (snd nm))"

definition satisfies :: "class_decl \<Rightarrow> class_decl \<Rightarrow> bool" where
  "satisfies cls proto = list_all (has_member cls) proto"

section \<open>The package surface (\<^verbatim>\<open>__init__.py\<close>)\<close>

text \<open>
  \<^verbatim>\<open>
  from .repository import crud_factory, AsyncCrud, CRUDRepository
  from .protocols import SqlaModel, DomainModel
  from .exceptions import (
      RepositoryException,
      NotFoundException,
      IntegrityConflictException,
      DiffAtrrsOnCreateCrud,
  )
  from .types import SA, DM, PrimitiveValue, FilterValue, Filters, IdValue
  \<close>
  The names imported from each module, and the list \<^verbatim>\<open>__all__\<close> of public names.
\<close>

definition imports_from_repository :: "string list" where
  "imports_from_repository = [''crud_factory'', ''AsyncCrud'', ''CRUDRepository'']"

definition imports_from_protocols :: "string list" where
  "imports_from_protocols = [''SqlaModel'', ''DomainModel'']"

definition imports_from_exceptions :: "string list" where
  "imports_from_exceptions =
     [''RepositoryException'', ''NotFoundException'', ''IntegrityConflictException'',
      ''DiffAtrrsOnCreateCrud'']"

definition imports_from_types :: "string list" where
  "imports_from_types = [''SA'', ''DM'', ''PrimitiveValue'', ''FilterValue'', ''Filters'', ''IdValue'']"

definition dunder_all :: "string list" where
  "dunder_all =
     [''crud_factory'', ''AsyncCrud'', ''CRUDRepository'', ''SqlaModel'', ''DomainModel'',
      ''RepositoryException'', ''NotFoundException'', ''IntegrityConflictException'',
      ''DiffAtrrsOnCreateCrud'', ''SA'', ''DM'', ''PrimitiveValue'', ''FilterValue'',
      ''IdValue'', ''Filters'']"

text \<open>The public error surface: the public names that come from \<^verbatim>\<open>.exceptions\<close>.\<close>

definition error_surface :: "string list" where
  "error_surface = filter (\<lambda>n. n \<in> set imports_from_exceptions) dunder_all"

text \<open>
  Modelled from the spec: the module \<^verbatim>\<open>exceptions.py\<close>, which declares the four
  exception classes that \<^verbatim>\<open>__init__.py\<close> imports, is not among the sources. The classes
  carry the names \<^verbatim>\<open>__init__.py\<close> imports them under; their bases follow section 7 of
  the specification: one base kind, and the three others rooted at it.
\<close>

datatype repo_exception =
    RepositoryException
  | NotFoundException
  | IntegrityConflictException
  | DiffAtrrsOnCreateCrud

fun exception_name :: "repo_exception \<Rightarrow> string" where
  "exception_name RepositoryException = ''RepositoryException''"
| "exception_name NotFoundException = ''NotFoundException''"
| "exception_name IntegrityConflictException = ''IntegrityConflictException''"
| "exception_name DiffAtrrsOnCreateCrud = ''DiffAtrrsOnCreateCrud''"

text \<open>
  Modelled from the spec: the base class of each exception class (\<^verbatim>\<open>exceptions.py\<close> is
  missing). \<open>None\<close> stands for a base outside the package (Python's \<^verbatim>\<open>Exception\<close>).
\<close>

fun base_class :: "repo_exception \<Rightarrow> repo_exception option" where
  "base_class RepositoryException = None"
| "base_class NotFoundException = Some RepositoryException"
| "base_class IntegrityConflictException = Some RepositoryException"
| "base_class DiffAtrrsOnCreateCrud = Some RepositoryException"

text \<open>
  \<open>caught_by handler e\<close>: the clause \<^verbatim>\<open>except handler:\<close> catches a raised \<open>e\<close>, that
  is, the class of \<open>e\<close> is \<open>handler\<close> or derives from it. The hierarchy is one level
  deep, so one step to the base decides it.
\<close>

definition caught_by :: "repo_exception \<Rightarrow> repo_exception \<Rightarrow> bool" where
  "caught_by handler e = (e = handler \<or> base_class e = Some handler)"

section \<open>The repository (modelled from the specification)\<close>

text \<open>
  The module \<^verbatim>\<open>repository.py\<close>, which \<^verbatim>\<open>__init__.py\<close> imports \<^verbatim>\<open>crud_factory\<close>,
  \<^verbatim>\<open>AsyncCrud\<close> and \<^verbatim>\<open>CRUDRepository\<close> from, is not among the sources. Every definition of
  this section is written from the specification's sections 3 to 7.
\<close>

text \<open>
  Modelled from the spec: the types a repository is generic over (section 3); the
  application's own PM and DM classes are not part of the package. A persistence-model
  instance is a row: its attributes by name. A persistence-model type is its class
  declaration together with the fields (columns) the storage schema knows; a
  domain-model type is its class declaration together with the two conversions and
  the identifier field.
\<close>

type_synonym row = "(string \<times> pyval) list"

record pm_type =
  pm_members :: class_decl
  pm_columns :: "string list"

record 'd dm_type =
  dm_members :: class_decl
  model_validate :: "row \<Rightarrow> 'd option"
  model_dump :: "'d \<Rightarrow> row"
  dm_id :: "'d \<Rightarrow> pyval"

text \<open>
  Modelled from the spec: the repository binding of section 3 (the repository class of
  \<^verbatim>\<open>repository.py\<close> is missing), the pair of types fixed for the lifetime of a
  repository. The operations below take the binding and the session they talk to, and
  return their outcome with the session as they leave it.
\<close>

record 'd binding =
  bound_pm :: pm_type
  bound_dm :: "'d dm_type"

text \<open>
  Modelled from the spec: the storage session of section 6, an external collaborator of
  the repository. It holds the rows by identifier, hands out integer keys for rows
  inserted without one, and counts the calls made to it. A fetch of an absent
  identifier yields no row (not an exception); an insert or an update that would give
  two rows the same identifier is the engine's constraint violation.
\<close>

record session =
  table :: "(pyval \<times> row) list"
  next_key :: int
  calls :: nat

datatype engine_signal = ConstraintViolation

text \<open>
  Modelled from the spec: the session's fetch by identifier (section 6; the session is
  SQLAlchemy's, outside the package). No row for an absent identifier.
\<close>

definition fetch :: "pyval \<Rightarrow> session \<Rightarrow> row option \<times> session" where
  "fetch i s = (map_of (table s) i, s\<lparr>calls := Suc (calls s)\<rparr>)"

text \<open>
  Modelled from the spec: the session's insert of a new row (section 6). The row keeps
  the identifier it comes with, or gets the next key of the session.
\<close>

definition insert_row :: "row \<Rightarrow> session \<Rightarrow> (engine_signal + row) \<times> session" where
  "insert_row a s =
     (let s1 = s\<lparr>calls := Suc (calls s)\<rparr> in
      case map_of a ''id'' of
        Some i \<Rightarrow>
          if map_of (table s1) i \<noteq> None then (Inl ConstraintViolation, s1)
          else (Inr a, s1\<lparr>table := table s1 @ [(i, a)]\<rparr>)
      | None \<Rightarrow>
          let i = VInt (next_key s1); r = (''id'', i) # a in
          if map_of (table s1) i \<noteq> None then (Inl ConstraintViolation, s1)
          else (Inr r, s1\<lparr>table := table s1 @ [(i, r)], next_key := next_key s1 + 1\<rparr>))"

text \<open>
  Modelled from the spec: the partial update of section 6, the fields of \<open>a\<close> laid
  over the row \<open>r\<close>, and the session's update and delete by identifier.
\<close>

definition overlay :: "row \<Rightarrow> row \<Rightarrow> row" where
  "overlay a r = a @ filter (\<lambda>kv. fst kv \<notin> set (map fst a)) r"

definition update_row :: "pyval \<Rightarrow> row \<Rightarrow> session \<Rightarrow> (engine_signal + row) \<times> session" where
  "update_row i r s =
     (let s1 = s\<lparr>calls := Suc (calls s)\<rparr>;
          j = (case map_of r ''id'' of Some j \<Rightarrow> j | None \<Rightarrow> i) in
      if j \<noteq> i \<and> map_of (table s1) j \<noteq> None then (Inl ConstraintViolation, s1)
      else (Inr r, s1\<lparr>table := map (\<lambda>kr. if fst kr = i then (j, r) else kr) (table s1)\<rparr>))"

definition delete_row :: "pyval \<Rightarrow> session \<Rightarrow> session" where
  "delete_row i s =
     s\<lparr>table := filter (\<lambda>kr. fst kr \<noteq> i) (table s), calls := Suc (calls s)\<rparr>"

text \<open>
  Modelled from the spec: the outcome of an operation that fails (section 7; the
  operations of \<^verbatim>\<open>repository.py\<close> are missing): one of the repository's typed
  exceptions, or an exception of a collaborator (a failed validation, say), which
  passes unchanged.
\<close>

datatype failure = Raised repo_exception | Propagated

text \<open>
  Modelled from the spec: the conversion at the boundary (section 3; \<^verbatim>\<open>repository.py\<close>
  is missing), the domain-model instance built from a row by validate-from-mapping.
  Section 3 has the identifier of a DM instance equal to the identifier of its row in
  every successfully completed operation that returns both, so an operation completes
  successfully only with such an instance; a validation that fails, or that yields an
  instance with another identifier, ends the operation in a failure that is none of
  the repository's own.
\<close>

definition to_domain :: "'d binding \<Rightarrow> row \<Rightarrow> session \<Rightarrow> (failure + 'd) \<times> session" where
  "to_domain b r s =
     (case model_validate (bound_dm b) r of
        None \<Rightarrow> (Inl Propagated, s)
      | Some d \<Rightarrow>
          if map_of r ''id'' = Some (dm_id (bound_dm b) d) then (Inr d, s)
          else (Inl Propagated, s))"

text \<open>
  Modelled from the spec: \<^verbatim>\<open>create\<close> of the repository class in the missing
  \<^verbatim>\<open>repository.py\<close>. Section 4.2: the attribute keys must be fields of the PM type, which
  is checked before any storage call; then one write against the session; the engine's
  constraint violation is raised again as the integrity conflict; the result is the DM
  instance built from the persisted row.
\<close>

definition create :: "'d binding \<Rightarrow> row \<Rightarrow> session \<Rightarrow> (failure + 'd) \<times> session" where
  "create b a s =
     (if \<not> list_all (\<lambda>k. k \<in> set (pm_columns (bound_pm b))) (map fst a)
      then (Inl (Raised DiffAtrrsOnCreateCrud), s)
      else
        (case insert_row a s of
           (Inl _, s') \<Rightarrow> (Inl (Raised IntegrityConflictException), s')
         | (Inr r, s') \<Rightarrow> to_domain b r s'))"

text \<open>
  Modelled from the spec: \<^verbatim>\<open>get\<close> of the missing \<^verbatim>\<open>repository.py\<close>. Section 4.3: the
  matching DM instance, or the not-found exception when no row has the identifier.
\<close>

definition get :: "'d binding \<Rightarrow> pyval \<Rightarrow> session \<Rightarrow> (failure + 'd) \<times> session" where
  "get b i s =
     (case fetch i s of
        (None, s') \<Rightarrow> (Inl (Raised NotFoundException), s')
      | (Some r, s') \<Rightarrow> to_domain b r s')"

text \<open>
  Modelled from the spec: \<^verbatim>\<open>update\<close> of the missing \<^verbatim>\<open>repository.py\<close>. Section 4.5: not
  found when the identifier resolves to no row, checked first; an integrity conflict
  when the engine rejects the change; otherwise the updated DM instance read back. The
  specification names no error for attribute keys unknown to the PM type on update, so
  the attributes go to the session as they are.
\<close>

definition update :: "'d binding \<Rightarrow> pyval \<Rightarrow> row \<Rightarrow> session \<Rightarrow> (failure + 'd) \<times> session" where
  "update b i a s =
     (case fetch i s of
        (None, s') \<Rightarrow> (Inl (Raised NotFoundException), s')
      | (Some r, s') \<Rightarrow>
          (case update_row i (overlay a r) s' of
             (Inl _, s'') \<Rightarrow> (Inl (Raised IntegrityConflictException), s'')
           | (Inr r', s'') \<Rightarrow> to_domain b r' s''))"

text \<open>
  Modelled from the spec: \<^verbatim>\<open>delete\<close> of the missing \<^verbatim>\<open>repository.py\<close>. Section 4.6: no
  result on success; not found when the identifier resolves to no row.
\<close>

definition delete :: "'d binding \<Rightarrow> pyval \<Rightarrow> session \<Rightarrow> (failure + unit) \<times> session" where
  "delete b i s =
     (case fetch i s of
        (None, s') \<Rightarrow> (Inl (Raised NotFoundException), s')
      | (Some r, s') \<Rightarrow> (Inr (), delete_row i s'))"

section \<open>An application\<close>

text \<open>
  A persistence-model type \<^verbatim>\<open>users\<close> with the columns \<^verbatim>\<open>id\<close> and \<^verbatim>\<open>name\<close>, and a
  domain-model type whose instances are the validated mappings themselves: validation
  asks for an \<^verbatim>\<open>id\<close>, the dump is the mapping.
\<close>

definition user_pm :: pm_type where
  "user_pm =
     \<lparr>pm_members =
        [(''__tablename__'', Attribute TStr), (''id'', Attribute TInt),
         (''name'', Attribute TStr)],
      pm_columns = [''id'', ''name'']\<rparr>"

definition user_dm :: "row dm_type" where
  "user_dm =
     \<lparr>dm_members =
        [(''id'', Attribute TInt), (''name'', Attribute TStr),
         (''model_validate'', ClassMethod [TAny] True True RSelf),
         (''model_dump'', Method [] True True (RType (TDict TStr TAny)))],
      model_validate = (\<lambda>r. if map_of r ''id'' = None then None else Some r),
      model_dump = (\<lambda>d. d),
      dm_id = (\<lambda>d. case map_of d ''id'' of None \<Rightarrow> VNone | Some i \<Rightarrow> i)\<rparr>"

definition user_repo :: "row binding" where
  "user_repo = \<lparr>bound_pm = user_pm, bound_dm = user_dm\<rparr>"

definition one_user :: session where
  "one_user =
     \<lparr>table = [(VInt 1, [(''id'', VInt 1), (''name'', VStr ''Ann'')])],
      next_key = 2, calls = 0\<rparr>"

section \<open>Properties of the declared types\<close>

lemma admits_TStr: "admits TStr v \<longleftrightarrow> kind_of v = KText"
  by (cases v) simp_all

lemma admits_PrimitiveValue:
  "admits PrimitiveValue v \<longleftrightarrow> kind_of v \<in> {KText, KUUID, KInteger, KFloat, KBoolean}"
  by (cases v) (simp_all add: PrimitiveValue_def)

lemma admits_Filters:
  "admits Filters v \<longleftrightarrow>
     (\<exists>kvs. v = VDict kvs \<and>
        list_all (\<lambda>kv. kind_of (fst kv) = KText \<and> kind_of (snd kv) = KText) kvs)"
  by (cases v) (simp_all add: Filters_def admits_TStr del: admits.simps(1))

text \<open>
  C2. The claim: every mapping from field names (text) to filter values, a filter value
  being a primitive or a list of primitives, is admitted by the declared type
  \<^verbatim>\<open>Filters\<close>. The declaration is \<^verbatim>\<open>dict[str, str]\<close>, although \<^verbatim>\<open>FilterValue\<close> is declared
  on the line before it: the filter set of the specification's own example,
  \<^verbatim>\<open>{"status": "active", "region": ["us", "eu"]}\<close>, is a mapping from text to filter
  values and is not admitted by \<^verbatim>\<open>Filters\<close>.
\<close>

theorem Filters_rejects_list_valued_filter:
  "admits spec_filter_set
     (VDict [(VStr ''status'', VStr ''active''),
             (VStr ''region'', VList [VStr ''us'', VStr ''eu''])]) \<and>
   \<not> admits Filters
     (VDict [(VStr ''status'', VStr ''active''),
             (VStr ''region'', VList [VStr ''us'', VStr ''eu''])])"
  by (simp add: spec_filter_set_def Filters_def FilterValue_def PrimitiveValue_def)

text \<open>
  C6, as amended. \<^verbatim>\<open>IdValue\<close> admits exactly the values of kind text, UUID, integer and
  boolean: \<^verbatim>\<open>bool\<close> is a subclass of \<^verbatim>\<open>int\<close>, so the member \<^verbatim>\<open>int\<close> of the union takes
  booleans with it. No float, \<^verbatim>\<open>None\<close>, list or mapping is admitted.
\<close>

theorem IdValue_admits_iff:
  "admits IdValue v \<longleftrightarrow> kind_of v \<in> {KText, KUUID, KInteger, KBoolean}"
  by (cases v) (simp_all add: IdValue_def)

theorem IdValue_admits_iff_witness:
  "admits IdValue (VStr ''a1'') \<and> admits IdValue (VUUID 7) \<and> admits IdValue (VInt 42) \<and>
   admits IdValue (VBool False) \<and> \<not> admits IdValue (VFloat 0) \<and> \<not> admits IdValue VNone"
  using IdValue_admits_iff [of "VStr ''a1''"] IdValue_admits_iff [of "VUUID 7"]
    IdValue_admits_iff [of "VInt 42"] IdValue_admits_iff [of "VBool False"]
    IdValue_admits_iff [of "VFloat 0"] IdValue_admits_iff [of VNone]
  by simp

text \<open>
  C6 as stated (exactly the three kinds text, UUID and integer) fails at the boolean
  \<^verbatim>\<open>True\<close>: it is admitted, and its kind is none of the three.
\<close>

theorem IdValue_admits_boolean:
  "admits IdValue (VBool True) \<and> kind_of (VBool True) \<notin> {KText, KUUID, KInteger}"
  by (simp add: IdValue_def)

section \<open>Properties of the structural contracts\<close>

lemma consistent_Any [simp]: "consistent t TAny"
  by (cases t) simp_all

lemma satisfies_SqlaModel_iff:
  "satisfies cls SqlaModel \<longleftrightarrow>
     (\<exists>t. map_of cls ''__tablename__'' = Some (Attribute t) \<and> consistent t TStr) \<and>
     (\<exists>t. map_of cls ''id'' = Some (Attribute t))"
  by (simp add: satisfies_def SqlaModel_def has_member_def split: option.splits)
    (auto elim: member_ok.elims)

lemma consistent_TStr_iff: "consistent k TStr \<longleftrightarrow> k = TAny \<or> k = TStr"
  by (cases k) simp_all

lemma consistent_text_mapping_iff:
  "consistent t (TDict TStr TAny) \<longleftrightarrow>
     t = TAny \<or> (\<exists>k v. t = TDict k v \<and> (k = TAny \<or> k = TStr))"
  by (cases t) (simp_all add: consistent_TStr_iff)

lemma ret_consistent_Self_iff: "ret_consistent r RSelf \<longleftrightarrow> r = RSelf \<or> r = RType TAny"
  by (cases r) simp_all

lemma ret_consistent_RType_iff:
  "ret_consistent r (RType t) \<longleftrightarrow> (r = RSelf \<and> t = TAny) \<or> (\<exists>t'. r = RType t' \<and> consistent t' t)"
  by (cases r) simp_all

lemma params_ok_object: "params_ok [TAny] True True ps va kw \<longleftrightarrow> va \<or> ps \<noteq> []"
  by (cases ps) (simp_all add: params_ok_def)

lemma params_ok_none: "params_ok [] True True ps va kw"
  by (simp add: params_ok_def)

lemma member_ok_model_validate_iff:
  "member_ok m (ClassMethod [TAny] True True RSelf) \<longleftrightarrow>
     (\<exists>ps va kw r. m = ClassMethod ps va kw r \<and> (va \<or> ps \<noteq> []) \<and>
        (r = RSelf \<or> r = RType TAny))"
  by (cases m) (simp_all add: params_ok_object ret_consistent_Self_iff)

lemma member_ok_model_dump_iff:
  "member_ok m (Method [] True True (RType (TDict TStr TAny))) \<longleftrightarrow>
     (\<exists>ps va kw t. m = Method ps va kw (RType t) \<and>
        (t = TAny \<or> (\<exists>k v. t = TDict k v \<and> (k = TAny \<or> k = TStr))))"
  by (cases m)
    (auto simp add: params_ok_none ret_consistent_RType_iff consistent_text_mapping_iff)

lemma satisfies_DomainModel_iff:
  "satisfies cls DomainModel \<longleftrightarrow>
     (\<exists>t. map_of cls ''id'' = Some (Attribute t)) \<and>
     (\<exists>m. map_of cls ''model_validate'' = Some m \<and>
          member_ok m (ClassMethod [TAny] True True RSelf)) \<and>
     (\<exists>m. map_of cls ''model_dump'' = Some m \<and>
          member_ok m (Method [] True True (RType (TDict TStr TAny))))"
  by (simp add: satisfies_def DomainModel_def has_member_def split: option.splits)
    (auto elim: member_ok.elims)

text \<open>
  C7. The persistence-model contract \<^verbatim>\<open>SqlaModel\<close> has exactly two members, the
  entity-type name \<^verbatim>\<open>__tablename__\<close> of text kind and the identifier \<^verbatim>\<open>id\<close>; both are
  attributes, none is a method. A class satisfies the contract exactly when it exposes
  these two attributes, so every class exposing them satisfies it.
\<close>

theorem SqlaModel_contract:
  "map fst SqlaModel = [''__tablename__'', ''id''] \<and>
   list_all is_attribute (map snd SqlaModel) \<and>
   map_of SqlaModel ''__tablename__'' = Some (Attribute TStr) \<and>
   (satisfies cls SqlaModel \<longleftrightarrow>
      (\<exists>t. map_of cls ''__tablename__'' = Some (Attribute t) \<and> consistent t TStr) \<and>
      (\<exists>t. map_of cls ''id'' = Some (Attribute t)))"
  using satisfies_SqlaModel_iff [of cls] by (simp add: SqlaModel_def)

theorem SqlaModel_contract_witness:
  "satisfies [(''__tablename__'', Attribute TStr), (''id'', Attribute TInt),
              (''email'', Attribute TStr)] SqlaModel \<and>
   \<not> satisfies [(''__tablename__'', Attribute TStr)] SqlaModel"
  using SqlaModel_contract
      [of "[(''__tablename__'', Attribute TStr), (''id'', Attribute TInt),
            (''email'', Attribute TStr)]"]
    SqlaModel_contract [of "[(''__tablename__'', Attribute TStr)]"]
  by simp

text \<open>
  C8. The domain-model contract \<^verbatim>\<open>DomainModel\<close> has exactly three members: the
  identifier \<^verbatim>\<open>id\<close>, of any annotation; the class method \<^verbatim>\<open>model_validate\<close>, which
  takes an arbitrary object and returns an instance of the class; and the instance
  method \<^verbatim>\<open>model_dump\<close>, which returns a mapping with text keys. A class satisfies the
  contract exactly when it exposes these three: an attribute \<^verbatim>\<open>id\<close>; a class method
  \<^verbatim>\<open>model_validate\<close> that takes a positional argument (by a parameter or by \<^verbatim>\<open>*args\<close>)
  and returns \<^verbatim>\<open>Self\<close> (or \<^verbatim>\<open>Any\<close>); an instance method \<^verbatim>\<open>model_dump\<close> that returns a
  \<^verbatim>\<open>dict\<close> with \<^verbatim>\<open>str\<close> (or \<^verbatim>\<open>Any\<close>) keys (or \<^verbatim>\<open>Any\<close>). It need not declare \<^verbatim>\<open>*args\<close>
  or \<^verbatim>\<open>**kwargs\<close>, and may have further parameters and members.
\<close>

theorem DomainModel_contract:
  "map fst DomainModel = [''id'', ''model_validate'', ''model_dump''] \<and>
   map_of DomainModel ''id'' = Some (Attribute TAny) \<and>
   map_of DomainModel ''model_validate'' = Some (ClassMethod [TAny] True True RSelf) \<and>
   map_of DomainModel ''model_dump'' = Some (Method [] True True (RType (TDict TStr TAny))) \<and>
   (satisfies cls DomainModel \<longleftrightarrow>
      (\<exists>t. map_of cls ''id'' = Some (Attribute t)) \<and>
      (\<exists>ps va kw r. map_of cls ''model_validate'' = Some (ClassMethod ps va kw r) \<and>
         (va \<or> ps \<noteq> []) \<and> (r = RSelf \<or> r = RType TAny)) \<and>
      (\<exists>ps va kw t. map_of cls ''model_dump'' = Some (Method ps va kw (RType t)) \<and>
         (t = TAny \<or> (\<exists>k v. t = TDict k v \<and> (k = TAny \<or> k = TStr)))))"
proof -
  have "satisfies cls DomainModel \<longleftrightarrow>
      (\<exists>t. map_of cls ''id'' = Some (Attribute t)) \<and>
      (\<exists>ps va kw r. map_of cls ''model_validate'' = Some (ClassMethod ps va kw r) \<and>
         (va \<or> ps \<noteq> []) \<and> (r = RSelf \<or> r = RType TAny)) \<and>
      (\<exists>ps va kw t. map_of cls ''model_dump'' = Some (Method ps va kw (RType t)) \<and>
         (t = TAny \<or> (\<exists>k v. t = TDict k v \<and> (k = TAny \<or> k = TStr))))"
    unfolding satisfies_DomainModel_iff member_ok_model_validate_iff
      member_ok_model_dump_iff
    by blast
  then show ?thesis by (simp add: DomainModel_def)
qed

theorem DomainModel_contract_witness:
  "satisfies [(''id'', Attribute TUUID), (''name'', Attribute TStr),
              (''model_validate'', ClassMethod [TAny] False False RSelf),
              (''model_dump'', Method [] False False (RType (TDict TStr TAny)))] DomainModel \<and>
   satisfies [(''id'', Attribute TInt),
              (''model_validate'', ClassMethod [TAny] True True RSelf),
              (''model_dump'', Method [] True True (RType (TDict TStr TAny)))] DomainModel \<and>
   \<not> satisfies [(''id'', Attribute TUUID),
                (''model_dump'', Method [] False False (RType (TDict TStr TAny)))] DomainModel \<and>
   \<not> satisfies [(''id'', Attribute TUUID),
                (''model_validate'', ClassMethod [TAny] False False RSelf),
                (''model_dump'', Method [] False False (RType TStr))] DomainModel"
  using DomainModel_contract
      [of "[(''id'', Attribute TUUID), (''name'', Attribute TStr),
            (''model_validate'', ClassMethod [TAny] False False RSelf),
            (''model_dump'', Method [] False False (RType (TDict TStr TAny)))]"]
    DomainModel_contract
      [of "[(''id'', Attribute TInt),
            (''model_validate'', ClassMethod [TAny] True True RSelf),
            (''model_dump'', Method [] True True (RType (TDict TStr TAny)))]"]
    DomainModel_contract
      [of "[(''id'', Attribute TUUID),
            (''model_dump'', Method [] False False (RType (TDict TStr TAny)))]"]
    DomainModel_contract
      [of "[(''id'', Attribute TUUID),
            (''model_validate'', ClassMethod [TAny] False False RSelf),
            (''model_dump'', Method [] False False (RType TStr))]"]
  by auto

text \<open>
  C10. Both contracts annotate \<^verbatim>\<open>id\<close> with \<^verbatim>\<open>Any\<close>. A class that satisfies a contract
  still satisfies it when its \<^verbatim>\<open>id\<close> is declared with any other annotation \<open>t\<close>, for
  example \<^verbatim>\<open>float\<close>, whose values are not identifier values: the restriction of
  \<^verbatim>\<open>IdValue\<close> is not part of either contract.
\<close>

theorem id_annotation_unconstrained:
  "map_of SqlaModel ''id'' = Some (Attribute TAny) \<and>
   map_of DomainModel ''id'' = Some (Attribute TAny) \<and>
   (satisfies pm SqlaModel \<longrightarrow> satisfies ((''id'', Attribute t) # pm) SqlaModel) \<and>
   (satisfies dm DomainModel \<longrightarrow> satisfies ((''id'', Attribute t) # dm) DomainModel) \<and>
   admits TFloat (VFloat x) \<and> \<not> admits IdValue (VFloat x)"
  by (simp add: satisfies_SqlaModel_iff satisfies_DomainModel_iff)
    (simp add: SqlaModel_def DomainModel_def IdValue_def)

theorem id_annotation_unconstrained_witness:
  "satisfies [(''__tablename__'', Attribute TStr), (''id'', Attribute TInt)] SqlaModel \<and>
   satisfies [(''id'', Attribute TFloat), (''__tablename__'', Attribute TStr),
              (''id'', Attribute TInt)] SqlaModel \<and>
   satisfies [(''id'', Attribute TInt),
              (''model_validate'', ClassMethod [TAny] True True RSelf),
              (''model_dump'', Method [] True True (RType (TDict TStr TAny)))] DomainModel \<and>
   satisfies [(''id'', Attribute TFloat), (''id'', Attribute TInt),
              (''model_validate'', ClassMethod [TAny] True True RSelf),
              (''model_dump'', Method [] True True (RType (TDict TStr TAny)))] DomainModel \<and>
   \<not> admits IdValue (VFloat 0)"
proof -
  let ?pm = "[(''__tablename__'', Attribute TStr), (''id'', Attribute TInt)]"
  let ?dm = "[(''id'', Attribute TInt),
              (''model_validate'', ClassMethod [TAny] True True RSelf),
              (''model_dump'', Method [] True True (RType (TDict TStr TAny)))]"
  have pm: "satisfies ?pm SqlaModel"
    by (simp add: satisfies_def SqlaModel_def has_member_def)
  have dm: "satisfies ?dm DomainModel"
    by (simp add: satisfies_def DomainModel_def has_member_def params_ok_def)
  from pm dm id_annotation_unconstrained [of ?pm TFloat ?dm 0]
  show ?thesis by simp
qed

section \<open>The error surface\<close>

lemma error_surface_eq:
  "error_surface =
     [''RepositoryException'', ''NotFoundException'', ''IntegrityConflictException'',
      ''DiffAtrrsOnCreateCrud'']"
  by (simp add: error_surface_def dunder_all_def imports_from_exceptions_def)

lemma caught_by_iff: "caught_by h e \<longleftrightarrow> (h = e \<or> h = RepositoryException)"
  by (cases e; cases h; simp add: caught_by_def)

text \<open>
  C1, as amended. The public error surface holds exactly four names,
  \<^verbatim>\<open>RepositoryException\<close>, \<^verbatim>\<open>NotFoundException\<close>, \<^verbatim>\<open>IntegrityConflictException\<close> and
  \<^verbatim>\<open>DiffAtrrsOnCreateCrud\<close>, one per error kind. The first is the base and has no base
  inside the package; the other three have it as their base. A handler catches a raised
  error exactly when it names the error's own kind or the base kind, so each kind can
  be caught by its type and all of them by the base.
\<close>

theorem error_surface_kinds:
  "error_surface =
     [''RepositoryException'', ''NotFoundException'', ''IntegrityConflictException'',
      ''DiffAtrrsOnCreateCrud''] \<and>
   error_surface =
     map exception_name
       [RepositoryException, NotFoundException, IntegrityConflictException,
        DiffAtrrsOnCreateCrud] \<and>
   base_class RepositoryException = None \<and>
   base_class NotFoundException = Some RepositoryException \<and>
   base_class IntegrityConflictException = Some RepositoryException \<and>
   base_class DiffAtrrsOnCreateCrud = Some RepositoryException \<and>
   (caught_by h e \<longleftrightarrow> (h = e \<or> h = RepositoryException))"
  using caught_by_iff [of h e] by (simp add: error_surface_eq)

theorem error_surface_kinds_witness:
  "caught_by NotFoundException NotFoundException \<and>
   caught_by RepositoryException DiffAtrrsOnCreateCrud \<and>
   \<not> caught_by NotFoundException IntegrityConflictException \<and>
   exception_name DiffAtrrsOnCreateCrud \<in> set error_surface"
proof -
  have own: "caught_by NotFoundException NotFoundException"
    using error_surface_kinds [of NotFoundException NotFoundException] by blast
  have base: "caught_by RepositoryException DiffAtrrsOnCreateCrud"
    using error_surface_kinds [of RepositoryException DiffAtrrsOnCreateCrud] by blast
  from error_surface_kinds [of NotFoundException IntegrityConflictException]
  have "caught_by NotFoundException IntegrityConflictException \<longleftrightarrow>
          (NotFoundException = IntegrityConflictException \<or>
           NotFoundException = RepositoryException)"
    and names: "error_surface =
      [''RepositoryException'', ''NotFoundException'', ''IntegrityConflictException'',
       ''DiffAtrrsOnCreateCrud'']"
    by blast+
  then have other: "\<not> caught_by NotFoundException IntegrityConflictException"
    by simp
  have "exception_name DiffAtrrsOnCreateCrud \<in> set error_surface"
    unfolding names by simp
  with own base other show ?thesis by blast
qed

text \<open>
  C1 as stated names the fourth kind \<^verbatim>\<open>DiffAttrsOnCreateException\<close>: the error surface
  is not that list of names, and the package exports no such name.
\<close>

theorem error_surface_name_mismatch:
  "error_surface \<noteq>
     [''RepositoryException'', ''NotFoundException'', ''IntegrityConflictException'',
      ''DiffAttrsOnCreateException''] \<and>
   ''DiffAttrsOnCreateException'' \<notin> set dunder_all"
  by (simp add: error_surface_eq dunder_all_def)

section \<open>Properties of the repository operations\<close>

text \<open>
  C3. When no row of the session has the identifier \<open>i\<close>, each of \<^verbatim>\<open>get\<close>, \<^verbatim>\<open>update\<close>
  (with any attributes) and \<^verbatim>\<open>delete\<close> ends in the not-found exception: the outcome is
  an error, never a value standing for absence and never a silent success. The rows of
  the session are as they were.
\<close>

theorem absent_identifier_not_found:
  assumes "map_of (table s) i = None"
  shows "fst (get b i s) = Inl (Raised NotFoundException) \<and>
         fst (update b i a s) = Inl (Raised NotFoundException) \<and>
         fst (delete b i s) = Inl (Raised NotFoundException) \<and>
         table (snd (get b i s)) = table s \<and>
         table (snd (update b i a s)) = table s \<and>
         table (snd (delete b i s)) = table s"
  using assms by (simp add: get_def update_def delete_def fetch_def)

theorem absent_identifier_not_found_witness:
  "map_of (table one_user) (VInt 5) = None \<and>
   fst (get user_repo (VInt 5) one_user) = Inl (Raised NotFoundException) \<and>
   fst (update user_repo (VInt 5) [(''name'', VStr ''Bob'')] one_user) =
     Inl (Raised NotFoundException) \<and>
   fst (delete user_repo (VInt 5) one_user) = Inl (Raised NotFoundException) \<and>
   fst (get user_repo (VInt 1) one_user) = Inr [(''id'', VInt 1), (''name'', VStr ''Ann'')]"
proof -
  have absent: "map_of (table one_user) (VInt 5) = None"
    by (simp add: one_user_def)
  have present:
    "fst (get user_repo (VInt 1) one_user) = Inr [(''id'', VInt 1), (''name'', VStr ''Ann'')]"
    by (simp add: get_def fetch_def to_domain_def one_user_def user_repo_def user_dm_def)
  from absent present
    absent_identifier_not_found [OF absent, of user_repo "[(''name'', VStr ''Bob'')]"]
  show ?thesis by simp
qed

text \<open>
  C4, as amended. When the attribute mapping \<open>a\<close> has a key \<open>k\<close> that is not a field
  of the PM type, \<^verbatim>\<open>create\<close> ends in the exception \<^verbatim>\<open>DiffAtrrsOnCreateCrud\<close>, the name
  the package exports for this kind, and the session is returned as it was given: no
  call was made to it (its call count is unchanged) and its rows are unchanged.
\<close>

theorem create_unknown_key:
  assumes "k \<in> set (map fst a)" and "k \<notin> set (pm_columns (bound_pm b))"
  shows "create b a s = (Inl (Raised DiffAtrrsOnCreateCrud), s)"
  using assms by (auto simp add: create_def list_all_iff)

theorem create_unknown_key_witness:
  "create user_repo [(''name'', VStr ''Bob''), (''nmae'', VStr ''Bob'')] one_user =
     (Inl (Raised DiffAtrrsOnCreateCrud), one_user) \<and>
   create user_repo [(''name'', VStr ''Bob'')] one_user =
     (Inr [(''id'', VInt 2), (''name'', VStr ''Bob'')],
      \<lparr>table = [(VInt 1, [(''id'', VInt 1), (''name'', VStr ''Ann'')]),
                (VInt 2, [(''id'', VInt 2), (''name'', VStr ''Bob'')])],
       next_key = 3, calls = 1\<rparr>)"
proof -
  have k: "''nmae'' \<in> set (map fst [(''name'', VStr ''Bob''), (''nmae'', VStr ''Bob'')])"
    by simp
  have n: "''nmae'' \<notin> set (pm_columns (bound_pm user_repo))"
    by (simp add: user_repo_def user_pm_def)
  have ok: "create user_repo [(''name'', VStr ''Bob'')] one_user =
     (Inr [(''id'', VInt 2), (''name'', VStr ''Bob'')],
      \<lparr>table = [(VInt 1, [(''id'', VInt 1), (''name'', VStr ''Ann'')]),
                (VInt 2, [(''id'', VInt 2), (''name'', VStr ''Bob'')])],
       next_key = 3, calls = 1\<rparr>)"
    by (simp add: create_def insert_row_def to_domain_def Let_def one_user_def
        user_repo_def user_pm_def user_dm_def)
  from ok create_unknown_key [OF k n, of one_user] show ?thesis by simp
qed

text \<open>
  C4 as stated has \<^verbatim>\<open>create\<close> raise \<^verbatim>\<open>DiffAttrsOnCreateException\<close>. For the attributes
  \<^verbatim>\<open>{"name": "Bob", "nmae": "Bob"}\<close>, whose key \<^verbatim>\<open>nmae\<close> is no field of the PM type,
  \<^verbatim>\<open>create\<close> raises the kind named \<^verbatim>\<open>DiffAtrrsOnCreateCrud\<close>; no kind of the package has
  the name of the claim, and \<^verbatim>\<open>__init__.py\<close> imports no such name.
\<close>

theorem create_unknown_key_other_name:
  "fst (create user_repo [(''name'', VStr ''Bob''), (''nmae'', VStr ''Bob'')] one_user) =
     Inl (Raised DiffAtrrsOnCreateCrud) \<and>
   exception_name DiffAtrrsOnCreateCrud \<noteq> ''DiffAttrsOnCreateException'' \<and>
   ''DiffAttrsOnCreateException'' \<notin>
     set (map exception_name
       [RepositoryException, NotFoundException, IntegrityConflictException,
        DiffAtrrsOnCreateCrud]) \<and>
   ''DiffAttrsOnCreateException'' \<notin> set imports_from_exceptions"
  by (simp add: create_def user_repo_def user_pm_def imports_from_exceptions_def)





end
